theory Spec2Isabelle
  imports Complex_Main
begin

section \<open>Pricing rules (src/models/PricingRule.js)\<close>

text \<open>
  JavaScript numbers are modelled as exact reals. Every price the theorems below evaluate
  at a concrete input is a product of small integers, on which double arithmetic is exact;
  statements over arbitrary multipliers are statements about the exact product, before
  any rounding error of the double multiplication.
\<close>

text \<open>The fields of the pricing rule schema that \<open>calculatePrice\<close> and its queries read.\<close>

record pricingRule =
  name :: string
  category :: string
  multiplier :: real
  basePrice :: real
  appliesTo :: string
  isActive :: bool
  priority :: int
  displayOrder :: nat

text \<open>
  The attributes \<open>calculatePrice\<close> reads from its argument. \<open>educationLevel\<close> and
  \<open>taskType\<close> are required strings; the other four may be absent (\<open>None\<close>), and the code
  supplies its own fallback for each with \<open>||\<close> or a guard.
\<close>

record orderData =
  educationLevel :: string
  taskType :: string
  urgency :: "string option"
  complexityLevel :: "string option"
  citationStyle :: "string option"
  pageCount :: "real option"

text \<open>
  \<open>Model.findOne(filter)\<close> on a collection held as a list, in storage order: the first
  document that satisfies the filter, or \<open>None\<close> for JavaScript's \<open>null\<close>.
\<close>

definition findOne :: "('a \<Rightarrow> bool) \<Rightarrow> 'a list \<Rightarrow> 'a option" where
  "findOne query docs = find query docs"

text \<open>\<open>s || d\<close> on an optional string: absent and the empty string are falsy.\<close>

definition or_string :: "string option \<Rightarrow> string \<Rightarrow> string" where
  "or_string s d = (case s of None \<Rightarrow> d | Some v \<Rightarrow> if v = [] then d else v)"

text \<open>\<open>x || d\<close> on an optional number: absent and zero are falsy.\<close>

definition or_number :: "real option \<Rightarrow> real \<Rightarrow> real" where
  "or_number x d = (case x of None \<Rightarrow> d | Some v \<Rightarrow> if v = 0 then d else v)"

text \<open>\<open>Math.round\<close>: the nearest integer, a tie going up.\<close>

definition Math_round :: "real \<Rightarrow> real" where
  "Math_round x = of_int \<lfloor>x + 1 / 2\<rfloor>"

text \<open>
  Lines 107-117 of \<open>calculatePrice\<close>: the per-page rate, 15 unless an active rule named
  \<open>base_price_per_page\<close> carries a truthy \<open>basePrice\<close>.
\<close>

definition basePricePerPage :: "pricingRule list \<Rightarrow> real" where
  "basePricePerPage rules =
     (case findOne (\<lambda>r. name r = ''base_price_per_page'' \<and> isActive r) rules of
        None \<Rightarrow> 15
      | Some baseRule \<Rightarrow> or_number (Some (basePrice baseRule)) 15)"

text \<open>The query of each multiplier step: category, value, active.\<close>

definition findRule :: "pricingRule list \<Rightarrow> string \<Rightarrow> string \<Rightarrow> pricingRule option" where
  "findRule rules c v = findOne (\<lambda>r. category r = c \<and> appliesTo r = v \<and> isActive r) rules"

text \<open>\<open>if (rule) { totalPrice *= rule.multiplier; }\<close>\<close>

definition applyRule :: "pricingRule option \<Rightarrow> real \<Rightarrow> real" where
  "applyRule rule totalPrice =
     (case rule of None \<Rightarrow> totalPrice | Some r \<Rightarrow> totalPrice * multiplier r)"

definition calculatePrice :: "pricingRule list \<Rightarrow> 'a orderData_scheme \<Rightarrow> real" where
  "calculatePrice rules orderData =
     (let totalPrice = basePricePerPage rules * or_number (pageCount orderData) 1;
          totalPrice = applyRule (findRule rules ''education_level'' (educationLevel orderData)) totalPrice;
          totalPrice = applyRule (findRule rules ''task_type'' (taskType orderData)) totalPrice;
          totalPrice = applyRule (findRule rules ''urgency''
                          (or_string (urgency orderData) ''standard'')) totalPrice;
          totalPrice = applyRule (findRule rules ''complexity''
                          (or_string (complexityLevel orderData) ''standard'')) totalPrice;
          totalPrice =
            (case citationStyle orderData of
               None \<Rightarrow> totalPrice
             | Some cs \<Rightarrow>
                 if cs \<noteq> [] \<and> cs \<noteq> ''none''
                 then applyRule (findRule rules ''citation_style'' cs) totalPrice
                 else totalPrice)
      in Math_round (totalPrice * 100) / 100)"

subsection \<open>The pricing algorithm as the specification words it\<close>

text \<open>
  The specification's \<open>multiplier(category, value)\<close>: the multiplier of the matching active
  rule, and 1.0 when there is none.
\<close>

definition spec_multiplier :: "pricingRule list \<Rightarrow> string \<Rightarrow> string \<Rightarrow> real" where
  "spec_multiplier rules c v =
     (case findRule rules c v of None \<Rightarrow> 1 | Some r \<Rightarrow> multiplier r)"

text \<open>Steps 1 to 7 of the specification's algorithm, as one product.\<close>

definition spec_price :: "pricingRule list \<Rightarrow> 'a orderData_scheme \<Rightarrow> real" where
  "spec_price rules orderData =
     Math_round
       (basePricePerPage rules * or_number (pageCount orderData) 1
          * spec_multiplier rules ''education_level'' (educationLevel orderData)
          * spec_multiplier rules ''task_type'' (taskType orderData)
          * spec_multiplier rules ''urgency'' (or_string (urgency orderData) ''standard'')
          * spec_multiplier rules ''complexity'' (or_string (complexityLevel orderData) ''standard'')
          * (if citationStyle orderData = None \<or> citationStyle orderData = Some []
                \<or> citationStyle orderData = Some ''none''
             then 1
             else spec_multiplier rules ''citation_style'' (the (citationStyle orderData)))
          * 100) / 100"

text \<open>
  What a catalog holds, as the specification lists it: category, value and multiplier of
  each active rule, and the names of the active rules.
\<close>

definition activeEntries :: "pricingRule list \<Rightarrow> (string \<times> string \<times> real) set" where
  "activeEntries rules =
     set (map (\<lambda>r. (category r, appliesTo r, multiplier r)) (filter isActive rules))"

definition activeNames :: "pricingRule list \<Rightarrow> string set" where
  "activeNames rules = set (map name (filter isActive rules))"

text \<open>The rules of the specification's worked example, under names of their own.\<close>

definition mkRule :: "string \<Rightarrow> string \<Rightarrow> string \<Rightarrow> real \<Rightarrow> pricingRule" where
  "mkRule n c v m =
     \<lparr>name = n, category = c, multiplier = m, basePrice = 0, appliesTo = v,
      isActive = True, priority = 0, displayOrder = 0\<rparr>"

definition phdRule :: pricingRule where
  "phdRule = mkRule ''phd'' ''education_level'' ''phd'' 3"

definition essayRule :: pricingRule where
  "essayRule = mkRule ''essay'' ''task_type'' ''essay'' 1"

definition standardUrgencyRule :: pricingRule where
  "standardUrgencyRule = mkRule ''standard_urgency'' ''urgency'' ''standard'' 1"

definition standardComplexityRule :: pricingRule where
  "standardComplexityRule = mkRule ''standard_complexity'' ''complexity'' ''standard'' 1"

text \<open>A base-rate rule left at the schema default of its \<open>basePrice\<close>, 0.\<close>

definition zeroBaseRule :: pricingRule where
  "zeroBaseRule = mkRule ''base_price_per_page'' ''page_count'' ''base'' 1"

definition phdEssay :: orderData where
  "phdEssay =
     \<lparr>educationLevel = ''phd'', taskType = ''essay'', urgency = Some ''standard'',
      complexityLevel = Some ''standard'', citationStyle = None, pageCount = Some 2\<rparr>"

section \<open>Orders (the order model and src/controllers/orderController.js)\<close>

datatype orderStatus = Pending | In_progress | Review | Completed | Cancelled

text \<open>One element of \<open>statusHistory\<close>: \<open>{status, timestamp, note}\<close>.\<close>

record statusEntry =
  h_status :: orderStatus
  h_timestamp :: int
  h_note :: string

text \<open>
  \<open>req.body\<close> of \<open>POST /orders\<close>: the pricing attributes and the further schema fields
  that the spread \<open>{...req.body, student}\<close> copies into the new document. The enumerated
  fields hold members of their enumeration and \<open>deadline\<close> is a point in time, in
  milliseconds.
\<close>

record createBody = orderData +
  deadline :: int
  additionalInstructions :: "string option"
  status :: "orderStatus option"
  statusHistory :: "statusEntry list"

text \<open>
  \<open>req.body\<close> of \<open>PUT /orders/:id\<close>, the fields \<open>updateOrder\<close> reads; \<open>None\<close> is
  \<open>undefined\<close>. A status is one of the five members of the schema's enumeration, so a
  status that is present is truthy.
\<close>

record updateBody =
  status :: "orderStatus option"
  additionalInstructions :: "string option"
  adminNotes :: "string option"
  progress :: "real option"
  statusNote :: "string option"

text \<open>
  A stored order document. The six pricing attributes keep the shape of the request;
  \<open>docId\<close> is the document's \<open>_id\<close>, \<open>student\<close> the owner's user id, and \<open>None\<close> in
  \<open>rating\<close> and \<open>reviewedAt\<close> is the schema's \<open>null\<close>.
\<close>

record order = orderData +
  docId :: nat
  student :: nat
  orderNumber :: string
  additionalInstructions :: string
  deadline :: int
  basePrice :: real
  totalPrice :: real
  status :: orderStatus
  statusHistory :: "statusEntry list"
  progress :: real
  adminNotes :: string
  rating :: "real option"
  review :: string
  reviewedAt :: "int option"

text \<open>\<open>req.user\<close>, as the authentication middleware supplies it.\<close>

record user =
  userId :: nat
  role :: string

text \<open>
  What a handler sends: \<open>res.status(c).json({success: true, data: order})\<close> or
  \<open>res.status(c).json({success: false, error: message})\<close>.
\<close>

datatype response = Success nat order | Failure nat string

text \<open>The schema's \<open>trim: true\<close> setter: white space cut from both ends (ASCII white space here).\<close>

definition whiteSpace :: "char \<Rightarrow> bool" where
  "whiteSpace c = (c \<in> set [CHR '' '', CHR 0x09, CHR 0x0A, CHR 0x0B, CHR 0x0C, CHR 0x0D])"

definition trim :: "string \<Rightarrow> string" where
  "trim s = rev (dropWhile whiteSpace (rev (dropWhile whiteSpace s)))"

text \<open>
  The validators of the schema on the paths the update handlers assign: \<open>maxlength\<close> of
  \<open>additionalInstructions\<close> and \<open>review\<close>, \<open>min\<close> and \<open>max\<close> of \<open>rating\<close> (\<open>null\<close> passes).
  A \<open>save()\<close> that a validator rejects throws, and the handler answers 500. Stored
  documents are taken to load and to save: the storage itself does not fail in an update.
\<close>

definition valid_additionalInstructions :: "string \<Rightarrow> bool" where
  "valid_additionalInstructions s = (length s \<le> 2000)"

definition valid_review :: "string \<Rightarrow> bool" where
  "valid_review s = (length s \<le> 1000)"

definition valid_rating :: "real option \<Rightarrow> bool" where
  "valid_rating r = (case r of None \<Rightarrow> True | Some x \<Rightarrow> 1 \<le> x \<and> x \<le> 5)"

text \<open>The orders collection, in storage order, and the two repository calls on it.\<close>

definition findById :: "nat \<Rightarrow> order list \<Rightarrow> order option" where
  "findById i db = findOne (\<lambda>d. docId d = i) db"

text \<open>\<open>order.save()\<close> on a loaded document: the stored document of that id is replaced.\<close>

definition save :: "order \<Rightarrow> order list \<Rightarrow> order list" where
  "save doc db = map (\<lambda>d. if docId d = docId doc then doc else d) db"

subsection \<open>Creation\<close>

text \<open>
  What one call of \<open>Order.create\<close> reads from outside: the clock of the pre-save hook
  (\<open>getFullYear()\<close>, \<open>getMonth()\<close>, the time stamp), \<open>Math.floor(Math.random() * 1000000)\<close>,
  a number below 1000000, and whether the call fails for a reason other than the unique
  index on \<open>orderNumber\<close> (a validator of the schema that rejects the new document, or
  the storage itself).
\<close>

record attempt =
  clockYear :: nat
  clockMonth :: nat
  clockTime :: int
  randomNum :: nat
  insertFails :: bool

text \<open>The last \<open>k\<close> decimal digits of \<open>n\<close>, zero-padded: \<open>padStart(k, "0")\<close> and \<open>slice(-k)\<close>.\<close>

fun padDigits :: "nat \<Rightarrow> nat \<Rightarrow> string" where
  "padDigits 0 n = []"
| "padDigits (Suc k) n = padDigits k (n div 10) @ [''0123456789'' ! (n mod 10)]"

text \<open>\<open>new Order(orderData)\<close>: the fields given, and the schema default for each absent one.\<close>

definition newOrder ::
  "nat \<Rightarrow> createBody \<Rightarrow> nat \<Rightarrow> real \<Rightarrow> real \<Rightarrow> string \<Rightarrow> order" where
  "newOrder i body st bp tp urg =
     \<lparr>educationLevel = educationLevel body,
      taskType = taskType body,
      urgency = Some urg,
      complexityLevel = Some (case complexityLevel body of None \<Rightarrow> ''standard'' | Some c \<Rightarrow> c),
      citationStyle = Some (case citationStyle body of None \<Rightarrow> ''none'' | Some c \<Rightarrow> c),
      pageCount = Some (case pageCount body of None \<Rightarrow> 1 | Some n \<Rightarrow> n),
      docId = i,
      student = st,
      orderNumber = [],
      additionalInstructions =
        (case createBody.additionalInstructions body of None \<Rightarrow> [] | Some s \<Rightarrow> trim s),
      deadline = createBody.deadline body,
      basePrice = bp,
      totalPrice = tp,
      status = (case createBody.status body of None \<Rightarrow> Pending | Some s \<Rightarrow> s),
      statusHistory = createBody.statusHistory body,
      progress = 0,
      adminNotes = [],
      rating = None,
      review = [],
      reviewedAt = None\<rparr>"

text \<open>The order number the hook builds: \<open>ORD-\<close>, year, month, a dash, the random number.\<close>

definition generateOrderNumber :: "attempt \<Rightarrow> string" where
  "generateOrderNumber env =
     ''ORD-'' @ padDigits 2 (clockYear env) @ padDigits 2 (clockMonth env + 1)
       @ ''-'' @ padDigits 6 (randomNum env)"

text \<open>The \<open>pre("save")\<close> hook on a new document.\<close>

definition preSave :: "attempt \<Rightarrow> order \<Rightarrow> order" where
  "preSave env doc =
     doc\<lparr>orderNumber := generateOrderNumber env,
         statusHistory :=
           statusHistory doc @
           [\<lparr>h_status = status doc, h_timestamp = clockTime env, h_note = ''Order created''\<rparr>]\<rparr>"

text \<open>
  How an insert fails: the duplicate-key error (code 11000) with the field of its
  \<open>keyPattern\<close>, or anything else.
\<close>

datatype persistError = DuplicateKey string | OtherError

definition freshId :: "order list \<Rightarrow> nat" where
  "freshId db = Suc (fold max (map docId db) 0)"

text \<open>\<open>Order.create\<close>: hook, then insert under the unique index on \<open>orderNumber\<close>.\<close>

definition Order_create ::
  "order \<Rightarrow> attempt \<Rightarrow> order list \<Rightarrow> persistError + order \<times> order list" where
  "Order_create draft env db =
     (let doc = preSave env draft
      in if insertFails env then Inl OtherError
         else if orderNumber doc \<in> set (map orderNumber db)
         then Inl (DuplicateKey ''orderNumber'')
         else Inr (doc, db @ [doc]))"

text \<open>
  The loop \<open>while (!order && attempts < 3)\<close>. \<open>env k\<close> is what the call made after \<open>k\<close>
  collisions reads; \<open>Inr (None, db)\<close> is the loop left with \<open>order\<close> still undefined.
\<close>

function createLoop ::
  "order \<Rightarrow> (nat \<Rightarrow> attempt) \<Rightarrow> order list \<Rightarrow> nat \<Rightarrow> persistError + order option \<times> order list" where
  "createLoop draft env db attempts =
     (if attempts < 3 then
        (case Order_create draft (env attempts) db of
           Inr (doc, db') \<Rightarrow> Inr (Some doc, db')
         | Inl (DuplicateKey k) \<Rightarrow>
             if k = ''orderNumber'' then createLoop draft env db (attempts + 1)
             else Inl (DuplicateKey k)
         | Inl OtherError \<Rightarrow> Inl OtherError)
      else Inr (None, db))"
  by pat_completeness auto
termination
  by (relation "measure (\<lambda>(draft, env, db, attempts). 3 - attempts)") auto

declare createLoop.simps [simp del]

definition createOrder ::
  "pricingRule list \<Rightarrow> order list \<Rightarrow> user \<Rightarrow> createBody \<Rightarrow> int \<Rightarrow> (nat \<Rightarrow> attempt)
     \<Rightarrow> response \<times> order list" where
  "createOrder rules db usr body now env =
     (let totalPrice = calculatePrice rules body;
          hoursUntilDeadline = real_of_int (createBody.deadline body - now) / (1000 * 60 * 60);
          urgency = (if hoursUntilDeadline \<le> 24 then ''urgent''
                     else if hoursUntilDeadline \<le> 72 then ''rush''
                     else ''standard'');
          draft = newOrder (freshId db) body (userId usr) (totalPrice / 1) totalPrice urgency
      in case createLoop draft env db 0 of
           Inl err \<Rightarrow> (Failure 500 ''Server error creating order'', db)
         | Inr (None, db') \<Rightarrow> (Failure 500 ''Server error creating order'', db')
         | Inr (Some order, db') \<Rightarrow> (Success 201 order, db'))"

subsection \<open>Updates\<close>

definition updateOrder ::
  "order list \<Rightarrow> user \<Rightarrow> nat \<Rightarrow> updateBody \<Rightarrow> int \<Rightarrow> response \<times> order list" where
  "updateOrder db usr i body now =
     (case findById i db of
        None \<Rightarrow> (Failure 404 ''Order not found'', db)
      | Some order \<Rightarrow>
          let isOwner = (student order = userId usr);
              isAdmin = (role usr = ''admin'')
          in if \<not> isOwner \<and> \<not> isAdmin
             then (Failure 403 ''Not authorized to update this order'', db)
             else if isOwner \<and> \<not> isAdmin then
               if updateBody.status body \<noteq> None \<and> updateBody.status body \<noteq> Some Cancelled
               then (Failure 403 ''Students can only cancel orders'', db)
               else if updateBody.status body = Some Cancelled
                       \<and> status order \<in> set [Completed, Cancelled]
               then (Failure 400 ''Cannot cancel this order'', db)
               else
                 let order =
                       (if updateBody.status body = Some Cancelled
                        then order\<lparr>status := Cancelled,
                                   statusHistory := statusHistory order @
                                     [\<lparr>h_status = Cancelled, h_timestamp = now,
                                       h_note = ''Cancelled by student''\<rparr>]\<rparr>
                        else order)
                 in (case updateBody.additionalInstructions body of
                       None \<Rightarrow> (Success 200 order, save order db)
                     | Some s \<Rightarrow>
                         if s = [] then (Success 200 order, save order db)
                         else if valid_additionalInstructions (trim s)
                         then (Success 200 (order\<lparr>additionalInstructions := trim s\<rparr>),
                               save (order\<lparr>additionalInstructions := trim s\<rparr>) db)
                         else (Failure 500 ''Server error updating order'', db))
             else
               let order =
                     (case updateBody.status body of
                        None \<Rightarrow> order
                      | Some s \<Rightarrow>
                          if s \<noteq> status order
                          then order\<lparr>status := s,
                                     statusHistory := statusHistory order @
                                       [\<lparr>h_status = s, h_timestamp = now,
                                         h_note = or_string (statusNote body)
                                                    ''Status updated by admin''\<rparr>]\<rparr>
                          else order);
                   order =
                     (case updateBody.adminNotes body of
                        None \<Rightarrow> order
                      | Some n \<Rightarrow> order\<lparr>adminNotes := trim n\<rparr>);
                   order =
                     (case updateBody.progress body of
                        None \<Rightarrow> order
                      | Some p \<Rightarrow> order\<lparr>progress := max 0 (min 100 p)\<rparr>)
               in (Success 200 order, save order db))"

definition cancelOrder ::
  "order list \<Rightarrow> user \<Rightarrow> nat \<Rightarrow> string option \<Rightarrow> int \<Rightarrow> response \<times> order list" where
  "cancelOrder db usr i reason now =
     (case findById i db of
        None \<Rightarrow> (Failure 404 ''Order not found'', db)
      | Some order \<Rightarrow>
          if student order \<noteq> userId usr
          then (Failure 403 ''Not authorized to cancel this order'', db)
          else if status order \<in> set [Completed, Cancelled]
          then (Failure 400 ''This order cannot be cancelled'', db)
          else
            let order = order\<lparr>status := Cancelled,
                              statusHistory := statusHistory order @
                                [\<lparr>h_status = Cancelled, h_timestamp = now,
                                  h_note = or_string reason ''Cancelled by student''\<rparr>]\<rparr>
            in (Success 200 order, save order db))"

text \<open>
  \<open>reviewOrder\<close>; \<open>rating\<close> and \<open>review\<close> are the two fields read from \<open>req.body\<close>, \<open>None\<close>
  when the request carries none. A path assigned \<open>undefined\<close> reads back as its default.
\<close>

definition reviewOrder ::
  "order list \<Rightarrow> user \<Rightarrow> nat \<Rightarrow> real option \<Rightarrow> string option \<Rightarrow> int
     \<Rightarrow> response \<times> order list" where
  "reviewOrder db usr i rating' review' now =
     (case findById i db of
        None \<Rightarrow> (Failure 404 ''Order not found'', db)
      | Some order \<Rightarrow>
          if student order \<noteq> userId usr
          then (Failure 403 ''Not authorized to review this order'', db)
          else if status order \<noteq> Completed
          then (Failure 400 ''Can only review completed orders'', db)
          else if rating order \<noteq> None
          then (Failure 400 ''Order has already been reviewed'', db)
          else
            let order = order\<lparr>rating := rating',
                              review := (case review' of None \<Rightarrow> [] | Some s \<Rightarrow> trim s),
                              reviewedAt := Some now\<rparr>
            in if valid_rating (rating order) \<and> valid_review (review order)
               then (Success 200 order, save order db)
               else (Failure 500 ''Server error submitting review'', db))"

subsection \<open>Requests in sequence\<close>

text \<open>The mutating requests of the order routes, each with everything its handler reads.\<close>

datatype request =
    CreateOrder "pricingRule list" user createBody int "nat \<Rightarrow> attempt"
  | UpdateOrder user nat updateBody int
  | CancelOrder user nat "string option" int
  | ReviewOrder user nat "real option" "string option" int

fun handle :: "request \<Rightarrow> order list \<Rightarrow> response \<times> order list" where
  "handle (CreateOrder rules usr body now env) db = createOrder rules db usr body now env"
| "handle (UpdateOrder usr i body now) db = updateOrder db usr i body now"
| "handle (CancelOrder usr i reason now) db = cancelOrder db usr i reason now"
| "handle (ReviewOrder usr i rating' review' now) db = reviewOrder db usr i rating' review' now"

text \<open>The collection after a sequence of requests, served one after the other.\<close>

fun serve :: "request list \<Rightarrow> order list \<Rightarrow> order list" where
  "serve [] db = db"
| "serve (r # rs) db = serve rs (snd (handle r db))"

text \<open>The history invariant of one document.\<close>

definition historyCurrent :: "order \<Rightarrow> bool" where
  "historyCurrent d = (statusHistory d \<noteq> [] \<and> h_status (last (statusHistory d)) = status d)"

section \<open>Concrete users, orders and requests\<close>

text \<open>How one call of \<open>Order.create\<close> can end, read off its environment.\<close>

definition collides :: "order list \<Rightarrow> attempt \<Rightarrow> bool" where
  "collides db a = (\<not> insertFails a \<and> generateOrderNumber a \<in> set (map orderNumber db))"

definition inserts :: "order list \<Rightarrow> attempt \<Rightarrow> bool" where
  "inserts db a = (\<not> insertFails a \<and> generateOrderNumber a \<notin> set (map orderNumber db))"

definition ownerUser :: user where
  "ownerUser = \<lparr>userId = 7, role = ''student''\<rparr>"

definition adminUser :: user where
  "adminUser = \<lparr>userId = 1, role = ''admin''\<rparr>"

definition otherUser :: user where
  "otherUser = \<lparr>userId = 8, role = ''student''\<rparr>"

text \<open>An order of user 7 as creation leaves it, and the same order once completed.\<close>

definition pendingOrder :: order where
  "pendingOrder =
     \<lparr>educationLevel = ''undergraduate'', taskType = ''essay'', urgency = Some ''standard'',
      complexityLevel = Some ''standard'', citationStyle = Some ''none'', pageCount = Some 1,
      docId = 1, student = 7, orderNumber = ''ORD-2611-000042'', additionalInstructions = [],
      deadline = 1000000000, basePrice = 15, totalPrice = 15, status = Pending,
      statusHistory = [\<lparr>h_status = Pending, h_timestamp = 0, h_note = ''Order created''\<rparr>],
      progress = 0, adminNotes = [], rating = None, review = [], reviewedAt = None\<rparr>"

definition completedOrder :: order where
  "completedOrder =
     pendingOrder\<lparr>status := Completed,
       statusHistory :=
         [\<lparr>h_status = Pending, h_timestamp = 0, h_note = ''Order created''\<rparr>,
          \<lparr>h_status = Completed, h_timestamp = 3, h_note = ''Status updated by admin''\<rparr>],
       progress := 100\<rparr>"

text \<open>Update requests: a status alone, and two fields an owner may not set.\<close>

definition statusOnly :: "orderStatus \<Rightarrow> updateBody" where
  "statusOnly s =
     \<lparr>updateBody.status = Some s, additionalInstructions = None, adminNotes = None,
      progress = None, statusNote = None\<rparr>"


text \<open>
  An urgency catalog, and a creation request due twelve hours after time 0 that names no
  urgency of its own.
\<close>

definition urgencyRules :: "pricingRule list" where
  "urgencyRules =
     [mkRule ''urgent'' ''urgency'' ''urgent'' 2, mkRule ''rush'' ''urgency'' ''rush'' (3 / 2),
      standardUrgencyRule]"

definition dueInTwelveHours :: createBody where
  "dueInTwelveHours =
     \<lparr>educationLevel = ''undergraduate'', taskType = ''essay'', urgency = None,
      complexityLevel = None, citationStyle = None, pageCount = Some 1,
      createBody.deadline = 43200000, additionalInstructions = None, status = None,
      statusHistory = []\<rparr>"

text \<open>
  Environments of \<open>Order.create\<close> in November 2026: one that draws 42, the number of
  \<open>pendingOrder\<close>; one that draws 43; one whose insert fails for another reason.
\<close>

definition draws :: "nat \<Rightarrow> attempt" where
  "draws n =
     \<lparr>clockYear = 2026, clockMonth = 10, clockTime = 0, randomNum = n, insertFails = False\<rparr>"

definition alwaysDraws42 :: "nat \<Rightarrow> attempt" where
  "alwaysDraws42 k = draws 42"

definition draws42TwiceThen43 :: "nat \<Rightarrow> attempt" where
  "draws42TwiceThen43 k = (if k < 2 then draws 42 else draws 43)"

definition alwaysDraws43 :: "nat \<Rightarrow> attempt" where
  "alwaysDraws43 k = draws 43"

definition storageDown :: "nat \<Rightarrow> attempt" where
  "storageDown k = (draws 43)\<lparr>insertFails := True\<rparr>"


text \<open>
  The completed order after a review that carried no rating, and after a second review.
\<close>

definition reviewedWithoutRating :: order where
  "reviewedWithoutRating = completedOrder\<lparr>review := ''good'', reviewedAt := Some 10\<rparr>"

definition reviewedAgain :: order where
  "reviewedAgain =
     completedOrder\<lparr>rating := Some 5, review := ''bad'', reviewedAt := Some 20\<rparr>"

text \<open>A creation, an administrator's completion and the owner's review, in this order.\<close>

definition lifeOfAnOrder :: "request list" where
  "lifeOfAnOrder =
     [CreateOrder urgencyRules ownerUser dueInTwelveHours 0 alwaysDraws43,
      UpdateOrder adminUser 1 (statusOnly Completed) 5,
      ReviewOrder ownerUser 1 (Some 5) None 9]"

text \<open>
  What an update handler leaves behind: a failure and the collection as it was, or a
  success and the collection with the answered document saved.
\<close>

definition savedOrFailed ::
  "order list \<Rightarrow> order \<Rightarrow> response \<times> order list \<Rightarrow> bool" where
  "savedOrFailed db ord out =
     (case fst out of
        Failure c msg \<Rightarrow> snd out = db
      | Success c ord' \<Rightarrow>
          c = 200 \<and> snd out = save ord' db \<and> (historyCurrent ord \<longrightarrow> historyCurrent ord'))"

section \<open>Properties of the pricing engine\<close>

lemma applyRule_spec_multiplier:
  "applyRule (findRule rules c v) t = t * spec_multiplier rules c v"
  by (simp add: applyRule_def spec_multiplier_def split: option.split)

lemma calculatePrice_spec_price: "calculatePrice rules od = spec_price rules od"
  by (cases "citationStyle od")
     (simp_all add: calculatePrice_def spec_price_def Let_def applyRule_spec_multiplier)

lemma findRule_Some:
  "findRule rules c v = Some r \<Longrightarrow>
     r \<in> set rules \<and> category r = c \<and> appliesTo r = v \<and> isActive r"
  by (auto simp: findRule_def findOne_def find_Some_iff)

lemma findRule_None:
  "findRule rules c v = None \<Longrightarrow> (c, v, m) \<notin> activeEntries rules"
  by (auto simp: findRule_def findOne_def find_None_iff activeEntries_def)

text \<open>A lookup whose key has one multiplier in the catalog finds that multiplier.\<close>

lemma spec_multiplier_entry:
  assumes "(c, v, m) \<in> activeEntries rules"
    and "\<And>m'. (c, v, m') \<in> activeEntries rules \<Longrightarrow> m' = m"
  shows "spec_multiplier rules c v = m"
proof (cases "findRule rules c v")
  case None
  with assms(1) show ?thesis by (simp add: findRule_None)
next
  case (Some r)
  from findRule_Some [OF Some] have "(c, v, multiplier r) \<in> activeEntries rules"
    by (force simp: activeEntries_def)
  then have "multiplier r = m" by (rule assms(2))
  with Some show ?thesis by (simp add: spec_multiplier_def)
qed

lemma basePricePerPage_default:
  assumes "''base_price_per_page'' \<notin> activeNames rules"
  shows "basePricePerPage rules = 15"
proof -
  have "findOne (\<lambda>r. name r = ''base_price_per_page'' \<and> isActive r) rules = None"
    using assms by (force simp: findOne_def find_None_iff activeNames_def image_iff)
  then show ?thesis by (simp add: basePricePerPage_def)
qed

text \<open>
  C2. With exactly the four active rules education_level:phd 3.0, task_type:essay 1.0,
  urgency:standard 1.0 and complexity:standard 1.0 in the catalog (in any order, under any
  names, beside any inactive rules) and no active rule named \<open>base_price_per_page\<close>, a
  two-page phd essay of standard urgency and complexity, with no citation style or the
  style "none", is priced at exactly 90.
\<close>

theorem phd_essay_two_pages_costs_90:
  assumes catalog: "activeEntries rules =
      {(''education_level'', ''phd'', 3), (''task_type'', ''essay'', 1),
       (''urgency'', ''standard'', 1), (''complexity'', ''standard'', 1)}"
    and no_base: "''base_price_per_page'' \<notin> activeNames rules"
    and attrs: "educationLevel od = ''phd''" "taskType od = ''essay''"
      "urgency od = Some ''standard''" "complexityLevel od = Some ''standard''"
      "citationStyle od = None \<or> citationStyle od = Some ''none''"
      "pageCount od = Some 2"
  shows "calculatePrice rules od = 90"
proof -
  have edu: "spec_multiplier rules ''education_level'' ''phd'' = 3"
    by (rule spec_multiplier_entry) (simp_all add: catalog)
  have task: "spec_multiplier rules ''task_type'' ''essay'' = 1"
    by (rule spec_multiplier_entry) (simp_all add: catalog)
  have urg: "spec_multiplier rules ''urgency'' ''standard'' = 1"
    by (rule spec_multiplier_entry) (simp_all add: catalog)
  have cmp: "spec_multiplier rules ''complexity'' ''standard'' = 1"
    by (rule spec_multiplier_entry) (simp_all add: catalog)
  have "spec_price rules od = 90"
    using attrs(5)
    by (auto simp: spec_price_def attrs(1-4,6) edu task urg cmp
          basePricePerPage_default [OF no_base] or_number_def or_string_def Math_round_def)
  then show ?thesis by (simp add: calculatePrice_spec_price)
qed

theorem phd_essay_two_pages_costs_90_witness:
  "calculatePrice [phdRule, essayRule, standardUrgencyRule, standardComplexityRule] phdEssay = 90"
  by (rule phd_essay_two_pages_costs_90)
     (simp_all add: activeEntries_def activeNames_def phdRule_def essayRule_def
        standardUrgencyRule_def standardComplexityRule_def mkRule_def phdEssay_def)

text \<open>
  C8. For every catalog and every order attributes, \<open>calculatePrice\<close> returns the price
  of the specification's algorithm, in which a lookup that finds no active rule counts as
  the multiplier 1.0: the step of such a lookup leaves the running total as it is. The
  function has no failing branch. Without the task_type rule for "essay", the two-page phd
  essay still costs 90.
\<close>

theorem missing_rule_multiplies_by_one:
  "calculatePrice rules od = spec_price rules od
   \<and> (findRule rules c v = None \<longrightarrow>
        spec_multiplier rules c v = 1 \<and> applyRule (findRule rules c v) t = t)
   \<and> calculatePrice [phdRule, standardUrgencyRule, standardComplexityRule] phdEssay = 90"
proof (intro conjI impI)
  show "calculatePrice rules od = spec_price rules od"
    by (rule calculatePrice_spec_price)
next
  assume "findRule rules c v = None"
  then show "spec_multiplier rules c v = 1" by (simp add: spec_multiplier_def)
next
  assume "findRule rules c v = None"
  then show "applyRule (findRule rules c v) t = t" by (simp add: applyRule_def)
next
  show "calculatePrice [phdRule, standardUrgencyRule, standardComplexityRule] phdEssay = 90"
    by (simp add: calculatePrice_def basePricePerPage_def findRule_def findOne_def
          applyRule_def or_number_def or_string_def Math_round_def phdRule_def
          standardUrgencyRule_def standardComplexityRule_def mkRule_def phdEssay_def)
qed

theorem missing_rule_multiplies_by_one_witness:
  "findRule [phdRule, standardUrgencyRule, standardComplexityRule] ''task_type'' ''essay'' = None
   \<and> spec_multiplier [phdRule, standardUrgencyRule, standardComplexityRule]
        ''task_type'' ''essay'' = 1
   \<and> applyRule (findRule [phdRule, standardUrgencyRule, standardComplexityRule]
        ''task_type'' ''essay'') 90 = 90"
proof -
  have none:
    "findRule [phdRule, standardUrgencyRule, standardComplexityRule] ''task_type'' ''essay'' = None"
    by (simp add: findRule_def findOne_def phdRule_def standardUrgencyRule_def
          standardComplexityRule_def mkRule_def)
  from missing_rule_multiplies_by_one
         [of "[phdRule, standardUrgencyRule, standardComplexityRule]" phdEssay
             "''task_type''" "''essay''" 90] none
  show ?thesis by blast
qed

text \<open>
  C10. When the active rule named \<open>base_price_per_page\<close> carries the base price 0, the
  per-page rate is the default 15 and the price is the one computed from 15; and whatever
  the catalog holds, the per-page rate is never 0.
\<close>

theorem zero_base_price_falls_back_to_15:
  assumes "findOne (\<lambda>r. name r = ''base_price_per_page'' \<and> isActive r) rules = Some baseRule"
    and "pricingRule.basePrice baseRule = 0"
  shows "basePricePerPage rules = 15
    \<and> calculatePrice rules od =
        Math_round
          (15 * or_number (pageCount od) 1
             * spec_multiplier rules ''education_level'' (educationLevel od)
             * spec_multiplier rules ''task_type'' (taskType od)
             * spec_multiplier rules ''urgency'' (or_string (urgency od) ''standard'')
             * spec_multiplier rules ''complexity'' (or_string (complexityLevel od) ''standard'')
             * (if citationStyle od = None \<or> citationStyle od = Some []
                   \<or> citationStyle od = Some ''none''
                then 1
                else spec_multiplier rules ''citation_style'' (the (citationStyle od)))
             * 100) / 100
    \<and> basePricePerPage rules' \<noteq> 0"
proof -
  have b: "basePricePerPage rules = 15"
    using assms by (simp add: basePricePerPage_def or_number_def)
  have p: "calculatePrice rules od = spec_price rules od"
    by (rule calculatePrice_spec_price)
  have n: "basePricePerPage rules' \<noteq> 0"
    by (simp add: basePricePerPage_def or_number_def split: option.split)
  show ?thesis
    unfolding p spec_price_def b using n by simp
qed

theorem zero_base_price_falls_back_to_15_witness:
  "basePricePerPage [zeroBaseRule, phdRule] = 15
   \<and> calculatePrice [zeroBaseRule, phdRule] phdEssay = 90
   \<and> basePricePerPage [] \<noteq> 0"
proof -
  have f: "findOne (\<lambda>r. name r = ''base_price_per_page'' \<and> isActive r) [zeroBaseRule, phdRule]
             = Some zeroBaseRule"
    by (simp add: findOne_def zeroBaseRule_def mkRule_def)
  have z: "pricingRule.basePrice zeroBaseRule = 0"
    by (simp add: zeroBaseRule_def mkRule_def)
  have m: "spec_multiplier [zeroBaseRule, phdRule] ''education_level'' ''phd'' = 3"
    "spec_multiplier [zeroBaseRule, phdRule] ''task_type'' ''essay'' = 1"
    "spec_multiplier [zeroBaseRule, phdRule] ''urgency'' ''standard'' = 1"
    "spec_multiplier [zeroBaseRule, phdRule] ''complexity'' ''standard'' = 1"
    by (simp_all add: spec_multiplier_def findRule_def findOne_def zeroBaseRule_def
          phdRule_def mkRule_def)
  from zero_base_price_falls_back_to_15 [OF f z, of phdEssay "[]"]
  show ?thesis
    by (simp add: m phdEssay_def or_number_def or_string_def Math_round_def)
qed

section \<open>Properties of the order lifecycle\<close>

lemma findById_Some: "findById i db = Some d \<Longrightarrow> d \<in> set db \<and> docId d = i"
  by (auto simp: findById_def findOne_def find_Some_iff)

lemma findById_save:
  "findById i db = Some d \<Longrightarrow> docId d' = i \<Longrightarrow> findById i (save d' db) = Some d'"
  by (induction db) (auto simp: findById_def findOne_def save_def)

lemma list_all_save: "list_all P db \<Longrightarrow> P d \<Longrightarrow> list_all P (save d db)"
  by (auto simp: save_def list_all_iff)


text \<open>
  C1, as the code has it. On an order that is completed or cancelled, no status request of
  a caller who is not an administrator changes anything: a cancellation by its owner,
  through \<open>updateOrder\<close> or \<open>cancelOrder\<close>, is answered 400; any other status asked by the
  owner is answered 403; \<open>updateOrder\<close> by anyone else who is not an administrator and
  \<open>cancelOrder\<close> by anyone but the owner are answered 403. In each case the collection
  is left as it was. Updates by an administrator are not covered.
\<close>

theorem terminal_order_locked_for_owner:
  assumes "findById i db = Some ord"
    and "status ord = Completed \<or> status ord = Cancelled"
  shows "(student ord = userId usr \<and> role usr \<noteq> ''admin'' \<and> updateBody.status body = Some Cancelled
            \<longrightarrow> updateOrder db usr i body now = (Failure 400 ''Cannot cancel this order'', db))
    \<and> (student ord = userId usr \<and> role usr \<noteq> ''admin'' \<and> updateBody.status body = Some s
          \<and> s \<noteq> Cancelled
            \<longrightarrow> updateOrder db usr i body now = (Failure 403 ''Students can only cancel orders'', db))
    \<and> (student ord \<noteq> userId usr \<and> role usr \<noteq> ''admin''
            \<longrightarrow> updateOrder db usr i body now
                  = (Failure 403 ''Not authorized to update this order'', db))
    \<and> (student ord = userId usr
            \<longrightarrow> cancelOrder db usr i reason now = (Failure 400 ''This order cannot be cancelled'', db))
    \<and> (student ord \<noteq> userId usr
            \<longrightarrow> cancelOrder db usr i reason now
                  = (Failure 403 ''Not authorized to cancel this order'', db))"
  using assms by (auto simp: updateOrder_def cancelOrder_def Let_def)

theorem terminal_order_locked_for_owner_witness:
  "updateOrder [completedOrder] ownerUser 1 (statusOnly Cancelled) 5
     = (Failure 400 ''Cannot cancel this order'', [completedOrder])
   \<and> updateOrder [completedOrder] ownerUser 1 (statusOnly In_progress) 5
     = (Failure 403 ''Students can only cancel orders'', [completedOrder])
   \<and> updateOrder [completedOrder] otherUser 1 (statusOnly Cancelled) 5
     = (Failure 403 ''Not authorized to update this order'', [completedOrder])
   \<and> cancelOrder [completedOrder] ownerUser 1 None 5
     = (Failure 400 ''This order cannot be cancelled'', [completedOrder])
   \<and> cancelOrder [completedOrder] adminUser 1 None 5
     = (Failure 403 ''Not authorized to cancel this order'', [completedOrder])"
proof -
  have f: "findById 1 [completedOrder] = Some completedOrder"
    by (simp add: findById_def findOne_def completedOrder_def pendingOrder_def)
  have t: "status completedOrder = Completed \<or> status completedOrder = Cancelled"
    by (simp add: completedOrder_def)
  have s: "student completedOrder = 7"
    by (simp add: completedOrder_def pendingOrder_def)
  from terminal_order_locked_for_owner [OF f t, where usr = ownerUser and body = "statusOnly Cancelled" and now = 5]
  have a: "updateOrder [completedOrder] ownerUser 1 (statusOnly Cancelled) 5
     = (Failure 400 ''Cannot cancel this order'', [completedOrder])"
    by (simp add: s ownerUser_def statusOnly_def)
  from terminal_order_locked_for_owner
         [OF f t, where usr = ownerUser and body = "statusOnly In_progress"
            and s = In_progress and now = 5]
  have b: "updateOrder [completedOrder] ownerUser 1 (statusOnly In_progress) 5
     = (Failure 403 ''Students can only cancel orders'', [completedOrder])"
    by (simp add: s ownerUser_def statusOnly_def)
  from terminal_order_locked_for_owner [OF f t, where usr = otherUser and body = "statusOnly Cancelled" and now = 5]
  have c: "updateOrder [completedOrder] otherUser 1 (statusOnly Cancelled) 5
     = (Failure 403 ''Not authorized to update this order'', [completedOrder])"
    by (simp add: s otherUser_def)
  from terminal_order_locked_for_owner [OF f t, where usr = ownerUser and reason = None and now = 5]
  have d: "cancelOrder [completedOrder] ownerUser 1 None 5
     = (Failure 400 ''This order cannot be cancelled'', [completedOrder])"
    by (simp add: s ownerUser_def)
  from terminal_order_locked_for_owner [OF f t, where usr = adminUser and reason = None and now = 5]
  have e: "cancelOrder [completedOrder] adminUser 1 None 5
     = (Failure 403 ''Not authorized to cancel this order'', [completedOrder])"
    by (simp add: s adminUser_def)
  from a b c d e show ?thesis by simp
qed

text \<open>
  C1 as stated fails: an administrator's \<open>updateOrder\<close> moves a completed order back to
  pending, answers 200 and appends a history entry.
\<close>

theorem admin_reopens_completed_order:
  "updateOrder [completedOrder] adminUser 1 (statusOnly Pending) 5
     = (Success 200
          (completedOrder\<lparr>status := Pending,
             statusHistory := statusHistory completedOrder @
               [\<lparr>h_status = Pending, h_timestamp = 5, h_note = ''Status updated by admin''\<rparr>]\<rparr>),
        [completedOrder\<lparr>status := Pending,
             statusHistory := statusHistory completedOrder @
               [\<lparr>h_status = Pending, h_timestamp = 5, h_note = ''Status updated by admin''\<rparr>]\<rparr>])"
  by (simp add: updateOrder_def findById_def findOne_def save_def Let_def or_string_def
        completedOrder_def pendingOrder_def adminUser_def statusOnly_def)




text \<open>
  C6, as the code has it. \<open>cancelOrder\<close> by the owner of an order that is neither completed
  nor cancelled answers 200, sets the status to cancelled, appends one history entry and
  stores the result; by anyone who is not the owner, an administrator included, it answers
  403; by the owner of a completed or cancelled order it answers 400; in both failures
  nothing is stored.
\<close>

theorem cancelOrder_owner_only:
  assumes "findById i db = Some ord"
    and "ord' = ord\<lparr>status := Cancelled,
                  statusHistory := statusHistory ord @
                    [\<lparr>h_status = Cancelled, h_timestamp = now,
                      h_note = or_string reason ''Cancelled by student''\<rparr>]\<rparr>"
  shows "(student ord = userId usr \<and> status ord \<noteq> Completed \<and> status ord \<noteq> Cancelled
            \<longrightarrow> cancelOrder db usr i reason now = (Success 200 ord', save ord' db)
                \<and> findById i (save ord' db) = Some ord')
    \<and> (student ord \<noteq> userId usr
            \<longrightarrow> cancelOrder db usr i reason now
                  = (Failure 403 ''Not authorized to cancel this order'', db))
    \<and> (student ord = userId usr \<and> (status ord = Completed \<or> status ord = Cancelled)
            \<longrightarrow> cancelOrder db usr i reason now
                  = (Failure 400 ''This order cannot be cancelled'', db))"
proof -
  have "docId ord' = i"
    using assms findById_Some [of i db ord] by simp
  then have "findById i (save ord' db) = Some ord'"
    using assms(1) by (rule findById_save [rotated])
  then show ?thesis
    using assms by (auto simp: cancelOrder_def Let_def)
qed

theorem cancelOrder_owner_only_witness:
  "cancelOrder [pendingOrder] ownerUser 1 None 5
     = (Success 200
          (pendingOrder\<lparr>status := Cancelled,
             statusHistory := statusHistory pendingOrder @
               [\<lparr>h_status = Cancelled, h_timestamp = 5, h_note = ''Cancelled by student''\<rparr>]\<rparr>),
        [pendingOrder\<lparr>status := Cancelled,
             statusHistory := statusHistory pendingOrder @
               [\<lparr>h_status = Cancelled, h_timestamp = 5, h_note = ''Cancelled by student''\<rparr>]\<rparr>])
   \<and> cancelOrder [pendingOrder] otherUser 1 None 5
     = (Failure 403 ''Not authorized to cancel this order'', [pendingOrder])
   \<and> cancelOrder [completedOrder] ownerUser 1 None 5
     = (Failure 400 ''This order cannot be cancelled'', [completedOrder])"
proof -
  have f: "findById 1 [pendingOrder] = Some pendingOrder"
    by (simp add: findById_def findOne_def pendingOrder_def)
  have g: "findById 1 [completedOrder] = Some completedOrder"
    by (simp add: findById_def findOne_def completedOrder_def pendingOrder_def)
  from cancelOrder_owner_only [OF f refl, where usr = ownerUser and reason = None and now = 5]
  have a: "cancelOrder [pendingOrder] ownerUser 1 None 5
     = (Success 200
          (pendingOrder\<lparr>status := Cancelled,
             statusHistory := statusHistory pendingOrder @
               [\<lparr>h_status = Cancelled, h_timestamp = 5, h_note = ''Cancelled by student''\<rparr>]\<rparr>),
        [pendingOrder\<lparr>status := Cancelled,
             statusHistory := statusHistory pendingOrder @
               [\<lparr>h_status = Cancelled, h_timestamp = 5, h_note = ''Cancelled by student''\<rparr>]\<rparr>])"
    by (simp add: pendingOrder_def ownerUser_def or_string_def save_def)
  from cancelOrder_owner_only [OF f refl, where usr = otherUser and reason = None and now = 5]
  have b: "cancelOrder [pendingOrder] otherUser 1 None 5
     = (Failure 403 ''Not authorized to cancel this order'', [pendingOrder])"
    by (simp add: pendingOrder_def otherUser_def)
  from cancelOrder_owner_only [OF g refl, where usr = ownerUser and reason = None and now = 5]
  have c: "cancelOrder [completedOrder] ownerUser 1 None 5
     = (Failure 400 ''This order cannot be cancelled'', [completedOrder])"
    by (simp add: completedOrder_def pendingOrder_def ownerUser_def)
  from a b c show ?thesis by simp
qed

text \<open>
  C6 as stated fails: an administrator who does not own a pending order is answered 403
  by \<open>cancelOrder\<close>.
\<close>

theorem admin_cannot_cancelOrder:
  "cancelOrder [pendingOrder] adminUser 1 None 5
     = (Failure 403 ''Not authorized to cancel this order'', [pendingOrder])"
  by (simp add: cancelOrder_def findById_def findOne_def pendingOrder_def adminUser_def)

lemma createLoop_done: "\<not> a < 3 \<Longrightarrow> createLoop draft env db a = Inr (None, db)"
  by (subst createLoop.simps) simp

lemma createLoop_step:
  "a < 3 \<Longrightarrow> createLoop draft env db a =
     (case Order_create draft (env a) db of
        Inr (doc, db') \<Rightarrow> Inr (Some doc, db')
      | Inl (DuplicateKey k) \<Rightarrow>
          if k = ''orderNumber'' then createLoop draft env db (a + 1)
          else Inl (DuplicateKey k)
      | Inl OtherError \<Rightarrow> Inl OtherError)"
  by (subst createLoop.simps) simp

lemma orderNumber_preSave: "orderNumber (preSave a draft) = generateOrderNumber a"
  by (simp add: preSave_def)

lemma Order_create_collides:
  "collides db a \<Longrightarrow> Order_create draft a db = Inl (DuplicateKey ''orderNumber'')"
  by (simp add: Order_create_def collides_def Let_def orderNumber_preSave)

lemma Order_create_fails: "insertFails a \<Longrightarrow> Order_create draft a db = Inl OtherError"
  by (simp add: Order_create_def Let_def)

lemma Order_create_inserts:
  "inserts db a \<Longrightarrow> Order_create draft a db = Inr (preSave a draft, db @ [preSave a draft])"
  by (simp add: Order_create_def inserts_def Let_def orderNumber_preSave)

lemma createLoop_collisions:
  "a + k \<le> 3 \<Longrightarrow> (\<And>j. j < k \<Longrightarrow> collides db (env (a + j))) \<Longrightarrow>
     createLoop draft env db a = createLoop draft env db (a + k)"
proof (induction k arbitrary: a)
  case 0
  then show ?case by simp
next
  case (Suc k)
  have c: "collides db (env a)" using Suc.prems(2) [of 0] by simp
  have "createLoop draft env db a = createLoop draft env db (a + 1)"
    using Suc.prems(1) by (simp add: createLoop_step Order_create_collides [OF c])
  also have "\<dots> = createLoop draft env db (a + 1 + k)"
  proof (rule Suc.IH)
    show "a + 1 + k \<le> 3" using Suc.prems(1) by simp
    fix j assume "j < k"
    then show "collides db (env (a + 1 + j))" using Suc.prems(2) [of "Suc j"] by simp
  qed
  finally show ?case by simp
qed

lemma createLoop_cong:
  "(\<And>j. a \<le> j \<Longrightarrow> j < 3 \<Longrightarrow> env j = env' j) \<Longrightarrow>
     createLoop draft env db a = createLoop draft env' db a"
proof (induction draft env db a rule: createLoop.induct)
  case (1 draft env db attempts)
  show ?case
  proof (cases "attempts < 3")
    case False
    then show ?thesis by (simp add: createLoop_done)
  next
    case True
    have e: "env attempts = env' attempts" using 1(2) True by simp
    show ?thesis
    proof (cases "Order_create draft (env attempts) db")
      case (Inr r)
      then show ?thesis using True e by (simp add: createLoop_step split: prod.splits)
    next
      case (Inl err)
      show ?thesis
      proof (cases err)
        case OtherError
        with Inl True e show ?thesis by (simp add: createLoop_step)
      next
        case (DuplicateKey k)
        show ?thesis
        proof (cases "k = ''orderNumber''")
          case False
          with Inl DuplicateKey True e show ?thesis by (simp add: createLoop_step)
        next
          case k: True
          have "createLoop draft env db (attempts + 1) = createLoop draft env' db (attempts + 1)"
            using True Inl DuplicateKey k 1(2) by (intro 1(1)) auto
          with Inl DuplicateKey True e k show ?thesis by (simp add: createLoop_step)
        qed
      qed
    qed
  qed
qed

lemma createLoop_Some:
  "createLoop draft env db a = Inr (Some doc, db') \<Longrightarrow>
     \<exists>k<3. doc = preSave (env k) draft \<and> db' = db @ [doc]"
proof (induction draft env db a rule: createLoop.induct)
  case (1 draft env db attempts)
  show ?case
  proof (cases "attempts < 3")
    case False
    with 1(2) show ?thesis by (simp add: createLoop_done)
  next
    case True
    show ?thesis
    proof (cases "Order_create draft (env attempts) db")
      case (Inr r)
      with 1(2) True have "r = (doc, db')"
        by (simp add: createLoop_step split: prod.splits)
      with Inr have "doc = preSave (env attempts) draft \<and> db' = db @ [doc]"
        by (auto simp: Order_create_def Let_def split: if_splits)
      with True show ?thesis by blast
    next
      case (Inl err)
      show ?thesis
      proof (cases err)
        case OtherError
        with Inl True 1(2) show ?thesis by (simp add: createLoop_step)
      next
        case (DuplicateKey k)
        with Inl True 1(2) have k: "k = ''orderNumber''"
          and r: "createLoop draft env db (attempts + 1) = Inr (Some doc, db')"
          by (simp_all add: createLoop_step split: if_splits)
        from True Inl DuplicateKey k r show ?thesis by (intro 1(1)) auto
      qed
    qed
  qed
qed

lemma createLoop_None:
  "createLoop draft env db a = Inr (None, db') \<Longrightarrow> db' = db"
proof (induction draft env db a rule: createLoop.induct)
  case (1 draft env db attempts)
  show ?case
  proof (cases "attempts < 3")
    case False
    with 1(2) show ?thesis by (simp add: createLoop_done)
  next
    case True
    show ?thesis
    proof (cases "Order_create draft (env attempts) db")
      case (Inr r)
      with 1(2) True show ?thesis by (simp add: createLoop_step split: prod.splits)
    next
      case (Inl err)
      show ?thesis
      proof (cases err)
        case OtherError
        with Inl True 1(2) show ?thesis by (simp add: createLoop_step)
      next
        case (DuplicateKey k)
        with Inl True 1(2) have k: "k = ''orderNumber''"
          and r: "createLoop draft env db (attempts + 1) = Inr (None, db')"
          by (simp_all add: createLoop_step split: if_splits)
        from True Inl DuplicateKey k r show ?thesis by (intro 1(1)) auto
      qed
    qed
  qed
qed

text \<open>The two thresholds of the controller, in milliseconds.\<close>

lemma hours_le:
  "(real_of_int d / (1000 * 60 * 60) \<le> 24) = (d \<le> 86400000)"
  "(real_of_int d / (1000 * 60 * 60) \<le> 72) = (d \<le> 259200000)"
  by (simp_all add: divide_le_eq)

lemma createOrder_Success:
  assumes "createOrder rules db usr body now env = (Success c ord, db')"
  shows "c = 201 \<and> db' = db @ [ord]
    \<and> urgency ord = Some (if createBody.deadline body - now \<le> 86400000 then ''urgent''
                          else if createBody.deadline body - now \<le> 259200000 then ''rush''
                          else ''standard'')
    \<and> totalPrice ord = calculatePrice rules body
    \<and> student ord = userId usr
    \<and> historyCurrent ord"
proof -
  define draft where "draft = newOrder (freshId db) body (userId usr)
      (calculatePrice rules body / 1) (calculatePrice rules body)
      (if real_of_int (createBody.deadline body - now) / (1000 * 60 * 60) \<le> 24 then ''urgent''
       else if real_of_int (createBody.deadline body - now) / (1000 * 60 * 60) \<le> 72 then ''rush''
       else ''standard'')"
  from assms have l: "createLoop draft env db 0 = Inr (Some ord, db')" and c: "c = 201"
    by (auto simp: createOrder_def Let_def draft_def split: sum.splits prod.splits option.splits)
  from createLoop_Some [OF l] obtain k where k: "ord = preSave (env k) draft" "db' = db @ [ord]"
    by blast
  show ?thesis
    using c k by (simp add: preSave_def draft_def newOrder_def hours_le historyCurrent_def)
qed

lemma padDigits_2:
  "padDigits 2 n = [''0123456789'' ! (n div 10 mod 10), ''0123456789'' ! (n mod 10)]"
proof -
  have "padDigits (Suc (Suc 0)) n
          = [''0123456789'' ! (n div 10 mod 10), ''0123456789'' ! (n mod 10)]"
    by simp
  then show ?thesis by (simp add: numeral_2_eq_2)
qed

lemma padDigits_6:
  "padDigits 6 n =
     [''0123456789'' ! (n div 100000 mod 10), ''0123456789'' ! (n div 10000 mod 10),
      ''0123456789'' ! (n div 1000 mod 10), ''0123456789'' ! (n div 100 mod 10),
      ''0123456789'' ! (n div 10 mod 10), ''0123456789'' ! (n mod 10)]"
proof -
  have s: "(6::nat) = Suc (Suc (Suc (Suc (Suc (Suc 0)))))" by simp
  show ?thesis unfolding s by (simp add: div_mult2_eq [symmetric])
qed

lemma generateOrderNumber_draws:
  "generateOrderNumber (draws 42) = ''ORD-2611-000042''"
  "generateOrderNumber (draws 43) = ''ORD-2611-000043''"
  "generateOrderNumber ((draws 43)\<lparr>insertFails := True\<rparr>) = ''ORD-2611-000043''"
  by (simp_all add: generateOrderNumber_def draws_def padDigits_2 padDigits_6)

lemma draws_fields: "insertFails (draws n) = False" "clockTime (draws n) = 0"
  by (simp_all add: draws_def)

lemmas price_defs = calculatePrice_def basePricePerPage_def findRule_def
        findOne_def applyRule_def or_number_def or_string_def Math_round_def

text \<open>
  C4, as the code has it. \<open>createOrder\<close> calls \<open>Order.create\<close> again only after a
  collision on \<open>orderNumber\<close>, and three times at most: what a fourth call would read has
  no effect on the outcome. If, after fewer than three collisions, the insert fails for
  another reason, the answer is 500 and nothing is stored; if it succeeds, the answer is
  201 and exactly the new order is added, under the number generated last. After three
  collisions the answer is 500 "Server error creating order" and nothing is stored: this
  is the answer to any other failure of the insert as well.
\<close>

theorem createOrder_retries_collisions:
  "(k < 3 \<and> (\<forall>j<k. collides db (env j)) \<and> insertFails (env k)
      \<longrightarrow> createOrder rules db usr body now env
            = (Failure 500 ''Server error creating order'', db))
   \<and> (k < 3 \<and> (\<forall>j<k. collides db (env j)) \<and> inserts db (env k)
      \<longrightarrow> (\<exists>ord. createOrder rules db usr body now env = (Success 201 ord, db @ [ord])
                \<and> orderNumber ord = generateOrderNumber (env k)))
   \<and> ((\<forall>j<3. collides db (env j))
      \<longrightarrow> createOrder rules db usr body now env
            = (Failure 500 ''Server error creating order'', db))
   \<and> ((\<forall>j<3. env j = env' j)
      \<longrightarrow> createOrder rules db usr body now env = createOrder rules db usr body now env')"
proof -
  define draft where "draft = newOrder (freshId db) body (userId usr)
      (calculatePrice rules body / 1) (calculatePrice rules body)
      (if real_of_int (createBody.deadline body - now) / (1000 * 60 * 60) \<le> 24 then ''urgent''
       else if real_of_int (createBody.deadline body - now) / (1000 * 60 * 60) \<le> 72 then ''rush''
       else ''standard'')"
  have unfold: "\<And>e. createOrder rules db usr body now e =
      (case createLoop draft e db 0 of
         Inl err \<Rightarrow> (Failure 500 ''Server error creating order'', db)
       | Inr (None, db') \<Rightarrow> (Failure 500 ''Server error creating order'', db')
       | Inr (Some order, db') \<Rightarrow> (Success 201 order, db'))"
    by (simp add: createOrder_def Let_def draft_def)
  have skip: "createLoop draft env db 0 = createLoop draft env db n"
    if "n \<le> 3" "\<forall>j<n. collides db (env j)" for n
    using createLoop_collisions [of 0 n db env draft] that by simp
  have fails: "createOrder rules db usr body now env
                 = (Failure 500 ''Server error creating order'', db)"
    if "k < 3" "\<forall>j<k. collides db (env j)" "insertFails (env k)"
    using that skip [of k]
    by (simp add: unfold createLoop_step Order_create_fails)
  have succeeds: "\<exists>ord. createOrder rules db usr body now env = (Success 201 ord, db @ [ord])
                    \<and> orderNumber ord = generateOrderNumber (env k)"
    if "k < 3" "\<forall>j<k. collides db (env j)" "inserts db (env k)"
    using that skip [of k]
    by (simp add: unfold createLoop_step Order_create_inserts orderNumber_preSave)
  have exhausted: "createOrder rules db usr body now env
                     = (Failure 500 ''Server error creating order'', db)"
    if "\<forall>j<3. collides db (env j)"
    using that skip [of 3] by (simp add: unfold createLoop_done)
  have same: "createOrder rules db usr body now env = createOrder rules db usr body now env'"
    if "\<forall>j<3. env j = env' j"
    using createLoop_cong [of 0 env env' draft db] that by (simp add: unfold)
  from fails succeeds exhausted same show ?thesis by blast
qed

lemma collides_42: "collides [pendingOrder] (draws 42)"
  by (simp add: collides_def generateOrderNumber_draws draws_fields pendingOrder_def)

theorem createOrder_retries_collisions_witness:
  "createOrder urgencyRules [pendingOrder] ownerUser dueInTwelveHours 0 storageDown
     = (Failure 500 ''Server error creating order'', [pendingOrder])
   \<and> (\<exists>ord. createOrder urgencyRules [pendingOrder] ownerUser dueInTwelveHours 0
               draws42TwiceThen43 = (Success 201 ord, [pendingOrder] @ [ord])
            \<and> orderNumber ord = ''ORD-2611-000043'')
   \<and> createOrder urgencyRules [pendingOrder] ownerUser dueInTwelveHours 0 alwaysDraws42
     = (Failure 500 ''Server error creating order'', [pendingOrder])"
proof -
  have a: "(0::nat) < 3 \<and> (\<forall>j<0. collides [pendingOrder] (storageDown j))
             \<and> insertFails (storageDown 0)"
    by (simp add: storageDown_def)
  have b: "(2::nat) < 3 \<and> (\<forall>j<2. collides [pendingOrder] (draws42TwiceThen43 j))
             \<and> inserts [pendingOrder] (draws42TwiceThen43 2)"
  proof (intro conjI)
    show "\<forall>j<2. collides [pendingOrder] (draws42TwiceThen43 j)"
      by (simp add: draws42TwiceThen43_def collides_42)
    show "inserts [pendingOrder] (draws42TwiceThen43 2)"
      by (simp add: draws42TwiceThen43_def inserts_def generateOrderNumber_draws
            draws_fields pendingOrder_def)
  qed simp
  have c: "\<forall>j<3. collides [pendingOrder] (alwaysDraws42 j)"
    by (simp add: alwaysDraws42_def collides_42)
  from createOrder_retries_collisions
         [where k = 0 and db = "[pendingOrder]" and env = storageDown and rules = urgencyRules
            and usr = ownerUser and body = dueInTwelveHours and now = 0] a
  have 1: "createOrder urgencyRules [pendingOrder] ownerUser dueInTwelveHours 0 storageDown
     = (Failure 500 ''Server error creating order'', [pendingOrder])"
    by blast
  from createOrder_retries_collisions
         [where k = 2 and db = "[pendingOrder]" and env = draws42TwiceThen43
            and rules = urgencyRules and usr = ownerUser and body = dueInTwelveHours
            and now = 0] b
  have 2: "\<exists>ord. createOrder urgencyRules [pendingOrder] ownerUser dueInTwelveHours 0
               draws42TwiceThen43 = (Success 201 ord, [pendingOrder] @ [ord])
            \<and> orderNumber ord = ''ORD-2611-000043''"
    by (simp add: draws42TwiceThen43_def generateOrderNumber_draws)
  from createOrder_retries_collisions
         [where db = "[pendingOrder]" and env = alwaysDraws42 and rules = urgencyRules
            and usr = ownerUser and body = dueInTwelveHours and now = 0] c
  have 3: "createOrder urgencyRules [pendingOrder] ownerUser dueInTwelveHours 0 alwaysDraws42
     = (Failure 500 ''Server error creating order'', [pendingOrder])"
    by blast
  from 1 2 3 show ?thesis by blast
qed

text \<open>
  C4 as stated fails: three collisions in a row and a failure of the storage are answered
  by the same status and the same message.
\<close>

theorem exhaustion_answered_like_any_failure:
  "createOrder urgencyRules [pendingOrder] ownerUser dueInTwelveHours 0 alwaysDraws42
     = (Failure 500 ''Server error creating order'', [pendingOrder])
   \<and> createOrder urgencyRules [pendingOrder] ownerUser dueInTwelveHours 0 storageDown
     = (Failure 500 ''Server error creating order'', [pendingOrder])"
  by (simp add: createOrder_def createLoop_step createLoop_done Order_create_def preSave_def
        generateOrderNumber_draws alwaysDraws42_def storageDown_def Let_def pendingOrder_def
        draws_fields)


text \<open>
  What a successful review does, and that a review which stored a rating closes the order
  to further reviews.
\<close>

lemma reviewOrder_Success:
  assumes "findById i db = Some ord"
    and "reviewOrder db usr i r rv now = (Success c ord', db')"
  shows "student ord = userId usr \<and> status ord = Completed \<and> rating ord = None
    \<and> c = 200 \<and> db' = save ord' db
    \<and> ord' = ord\<lparr>rating := r, review := (case rv of None \<Rightarrow> [] | Some t \<Rightarrow> trim t),
                   reviewedAt := Some now\<rparr>
    \<and> statusHistory ord' = statusHistory ord \<and> status ord' = status ord"
  using assms by (auto simp: reviewOrder_def Let_def split: if_splits)

lemma reviewOrder_rated:
  assumes "findById i db = Some ord" and "rating ord = Some x"
  shows "reviewOrder db usr i r rv now
           \<in> {(Failure 403 ''Not authorized to review this order'', db),
              (Failure 400 ''Can only review completed orders'', db),
              (Failure 400 ''Order has already been reviewed'', db)}"
  using assms by (simp add: reviewOrder_def)

lemma second_review_after_rating:
  assumes "findById i db = Some ord"
    and "reviewOrder db usr i (Some x) rv now = (Success c ord', db')"
  shows "reviewOrder db' usr i r2 rv2 now2 = (Failure 400 ''Order has already been reviewed'', db')"
proof -
  from reviewOrder_Success [OF assms]
  have o: "student ord' = userId usr" "status ord' = Completed" "rating ord' = Some x"
    and d: "db' = save ord' db" "docId ord' = i"
    using findById_Some [OF assms(1)] by auto
  have "findById i db' = Some ord'"
    unfolding d(1) using assms(1) d(2) by (rule findById_save)
  then show ?thesis using o by (simp add: reviewOrder_def)
qed

text \<open>
  C7 at a review that carries no rating: it is accepted, leaves \<open>rating\<close> at \<open>null\<close>, and a
  second review of the same order is accepted too and overwrites \<open>review\<close> and
  \<open>reviewedAt\<close>.
\<close>

theorem second_review_accepted:
  "reviewOrder [completedOrder] ownerUser 1 None (Some ''good'') 10
     = (Success 200 reviewedWithoutRating, [reviewedWithoutRating])
   \<and> reviewOrder [reviewedWithoutRating] ownerUser 1 (Some 5) (Some ''bad'') 20
     = (Success 200 reviewedAgain, [reviewedAgain])"
  by (simp add: reviewOrder_def findById_def findOne_def save_def Let_def trim_def
        whiteSpace_def valid_rating_def valid_review_def reviewedWithoutRating_def
        reviewedAgain_def completedOrder_def pendingOrder_def ownerUser_def)

text \<open>Each handler keeps the history invariant of every stored document.\<close>

lemma createOrder_Failure:
  "createOrder rules db usr body now env = (Failure c msg, db') \<Longrightarrow> db' = db"
  by (auto simp: createOrder_def Let_def split: sum.splits prod.splits option.splits
        dest: createLoop_None)

lemma historyCurrent_stored:
  "list_all historyCurrent db \<Longrightarrow> findById i db = Some ord \<Longrightarrow> historyCurrent ord"
  using findById_Some [of i db ord] by (simp add: list_all_iff)

lemma createOrder_history:
  assumes "list_all historyCurrent db"
    and "createOrder rules db usr body now env = (resp, db')"
  shows "list_all historyCurrent db' \<and> (\<forall>c ord. resp = Success c ord \<longrightarrow> historyCurrent ord)"
proof (cases resp)
  case (Success c ord)
  with assms createOrder_Success [of rules db usr body now env c ord db'] show ?thesis
    by simp
next
  case (Failure c msg)
  with assms createOrder_Failure [of rules db usr body now env c msg db'] show ?thesis
    by simp
qed

lemma updateOrder_savedOrFailed:
  "findById i db = Some ord \<Longrightarrow> savedOrFailed db ord (updateOrder db usr i body now)"
  by (auto simp: savedOrFailed_def updateOrder_def Let_def historyCurrent_def
        split: option.splits)

lemma cancelOrder_savedOrFailed:
  "findById i db = Some ord \<Longrightarrow> savedOrFailed db ord (cancelOrder db usr i reason now)"
  by (auto simp: savedOrFailed_def cancelOrder_def Let_def historyCurrent_def)

lemma reviewOrder_savedOrFailed:
  "findById i db = Some ord \<Longrightarrow> savedOrFailed db ord (reviewOrder db usr i r rv now)"
  by (auto simp: savedOrFailed_def reviewOrder_def Let_def historyCurrent_def)

lemma savedOrFailed_history:
  assumes "list_all historyCurrent db" and "findById i db = Some ord"
    and "savedOrFailed db ord (resp, db')"
  shows "list_all historyCurrent db' \<and> (\<forall>c ord'. resp = Success c ord' \<longrightarrow> historyCurrent ord')"
proof (cases resp)
  case (Failure c msg)
  with assms show ?thesis by (simp add: savedOrFailed_def)
next
  case (Success c ord')
  from assms(1,2) have "historyCurrent ord" by (rule historyCurrent_stored)
  with assms(3) Success have "historyCurrent ord'" "db' = save ord' db"
    by (simp_all add: savedOrFailed_def)
  with assms(1) Success show ?thesis by (simp add: list_all_save)
qed

lemma updateOrder_history:
  assumes "list_all historyCurrent db"
    and "updateOrder db usr i body now = (resp, db')"
  shows "list_all historyCurrent db' \<and> (\<forall>c ord. resp = Success c ord \<longrightarrow> historyCurrent ord)"
proof (cases "findById i db")
  case None
  with assms show ?thesis by (auto simp: updateOrder_def)
next
  case (Some ord)
  from updateOrder_savedOrFailed [OF Some, of usr body now] assms(2)
  have "savedOrFailed db ord (resp, db')" by simp
  with assms(1) Some show ?thesis by (rule savedOrFailed_history)
qed

lemma cancelOrder_history:
  assumes "list_all historyCurrent db"
    and "cancelOrder db usr i reason now = (resp, db')"
  shows "list_all historyCurrent db' \<and> (\<forall>c ord. resp = Success c ord \<longrightarrow> historyCurrent ord)"
proof (cases "findById i db")
  case None
  with assms show ?thesis by (auto simp: cancelOrder_def)
next
  case (Some ord)
  from cancelOrder_savedOrFailed [OF Some, of usr reason now] assms(2)
  have "savedOrFailed db ord (resp, db')" by simp
  with assms(1) Some show ?thesis by (rule savedOrFailed_history)
qed

lemma reviewOrder_history:
  assumes "list_all historyCurrent db"
    and "reviewOrder db usr i r rv now = (resp, db')"
  shows "list_all historyCurrent db' \<and> (\<forall>c ord. resp = Success c ord \<longrightarrow> historyCurrent ord)"
proof (cases "findById i db")
  case None
  with assms show ?thesis by (auto simp: reviewOrder_def)
next
  case (Some ord)
  from reviewOrder_savedOrFailed [OF Some, of usr r rv now] assms(2)
  have "savedOrFailed db ord (resp, db')" by simp
  with assms(1) Some show ?thesis by (rule savedOrFailed_history)
qed

lemma handle_history:
  assumes "list_all historyCurrent db" and "handle r db = (resp, db')"
  shows "list_all historyCurrent db' \<and> (\<forall>c ord. resp = Success c ord \<longrightarrow> historyCurrent ord)"
  using assms
  by (cases r)
     (auto dest: createOrder_history updateOrder_history cancelOrder_history
        reviewOrder_history)

lemma serve_history:
  "list_all historyCurrent db \<Longrightarrow> list_all historyCurrent (serve reqs db)"
proof (induction reqs arbitrary: db)
  case Nil
  then show ?case by simp
next
  case (Cons r reqs)
  from Cons.prems have "list_all historyCurrent (snd (handle r db))"
    using handle_history [of db r "fst (handle r db)" "snd (handle r db)"] by simp
  then show ?case by (simp add: Cons.IH)
qed

text \<open>
  C9. In a collection where every document's history is non-empty and ends with the
  document's status (the empty collection is one), this still holds after any sequence of
  creations, updates, cancellations and reviews, and the order a successful request
  answers with satisfies it as well. An administrator's update that names a status
  succeeds; it leaves the history as it was when that status is the current one, and
  appends exactly one entry, of the new status, otherwise.
\<close>

theorem history_ends_with_current_status:
  "(list_all historyCurrent db \<longrightarrow> list_all historyCurrent (serve reqs db))
   \<and> (list_all historyCurrent db \<and> handle r db = (Success c ord, db') \<longrightarrow> historyCurrent ord)
   \<and> (findById i db = Some stored \<and> role usr = ''admin'' \<and> updateBody.status body = Some s
        \<longrightarrow> (\<exists>ord'. updateOrder db usr i body now = (Success 200 ord', save ord' db)
                \<and> status ord' = s
                \<and> statusHistory ord' =
                    (if s = status stored then statusHistory stored
                     else statusHistory stored @
                       [\<lparr>h_status = s, h_timestamp = now,
                         h_note = or_string (statusNote body) ''Status updated by admin''\<rparr>])))"
proof (intro conjI impI)
  assume "list_all historyCurrent db"
  then show "list_all historyCurrent (serve reqs db)" by (rule serve_history)
next
  assume "list_all historyCurrent db \<and> handle r db = (Success c ord, db')"
  then show "historyCurrent ord" using handle_history [of db r "Success c ord" db'] by simp
next
  assume "findById i db = Some stored \<and> role usr = ''admin'' \<and> updateBody.status body = Some s"
  then show "\<exists>ord'. updateOrder db usr i body now = (Success 200 ord', save ord' db)
                \<and> status ord' = s
                \<and> statusHistory ord' =
                    (if s = status stored then statusHistory stored
                     else statusHistory stored @
                       [\<lparr>h_status = s, h_timestamp = now,
                         h_note = or_string (statusNote body) ''Status updated by admin''\<rparr>])"
    by (auto simp: updateOrder_def Let_def split: option.splits)
qed

lemma serve_lifeOfAnOrder:
  "map (\<lambda>d. (status d, map h_status (statusHistory d), rating d)) (serve lifeOfAnOrder [])
     = [(Completed, [Pending, Completed], Some 5)]"
  by (simp add: lifeOfAnOrder_def createOrder_def createLoop_step createLoop_done
        Order_create_def preSave_def newOrder_def freshId_def generateOrderNumber_draws
        alwaysDraws43_def Let_def price_defs urgencyRules_def draws_fields
        standardUrgencyRule_def mkRule_def dueInTwelveHours_def ownerUser_def adminUser_def
        statusOnly_def trim_def updateOrder_def reviewOrder_def findById_def save_def
        or_string_def valid_rating_def valid_review_def)

theorem history_ends_with_current_status_witness:
  "list_all historyCurrent (serve lifeOfAnOrder [])
   \<and> (\<exists>ord'. updateOrder [pendingOrder] adminUser 1 (statusOnly Pending) 5
               = (Success 200 ord', save ord' [pendingOrder])
            \<and> statusHistory ord' = statusHistory pendingOrder)
   \<and> (\<exists>ord'. updateOrder [pendingOrder] adminUser 1 (statusOnly Review) 5
               = (Success 200 ord', save ord' [pendingOrder])
            \<and> statusHistory ord' = statusHistory pendingOrder @
                 [\<lparr>h_status = Review, h_timestamp = 5, h_note = ''Status updated by admin''\<rparr>])"
proof -
  have f: "findById 1 [pendingOrder] = Some pendingOrder"
    by (simp add: findById_def findOne_def pendingOrder_def)
  have p: "status pendingOrder = Pending" by (simp add: pendingOrder_def)
  have same: "findById 1 [pendingOrder] = Some pendingOrder \<and> role adminUser = ''admin''
                \<and> updateBody.status (statusOnly Pending) = Some Pending"
    using f by (simp add: adminUser_def statusOnly_def)
  have other: "findById 1 [pendingOrder] = Some pendingOrder \<and> role adminUser = ''admin''
                \<and> updateBody.status (statusOnly Review) = Some Review"
    using f by (simp add: adminUser_def statusOnly_def)
  have n: "or_string (statusNote (statusOnly Review)) ''Status updated by admin''
             = ''Status updated by admin''"
    by (simp add: statusOnly_def or_string_def)
  from history_ends_with_current_status [where db = "[]" and reqs = lifeOfAnOrder]
  have a: "list_all historyCurrent (serve lifeOfAnOrder [])" by simp
  from history_ends_with_current_status
         [where db = "[pendingOrder]" and i = 1 and stored = pendingOrder and usr = adminUser
            and body = "statusOnly Pending" and s = Pending and now = 5] same
  have b: "\<exists>ord'. updateOrder [pendingOrder] adminUser 1 (statusOnly Pending) 5
               = (Success 200 ord', save ord' [pendingOrder])
            \<and> status ord' = Pending
            \<and> statusHistory ord' =
                (if Pending = status pendingOrder then statusHistory pendingOrder
                 else statusHistory pendingOrder @
                   [\<lparr>h_status = Pending, h_timestamp = 5,
                     h_note = or_string (statusNote (statusOnly Pending))
                                ''Status updated by admin''\<rparr>])"
    by blast
  from history_ends_with_current_status
         [where db = "[pendingOrder]" and i = 1 and stored = pendingOrder and usr = adminUser
            and body = "statusOnly Review" and s = Review and now = 5] other
  have c: "\<exists>ord'. updateOrder [pendingOrder] adminUser 1 (statusOnly Review) 5
               = (Success 200 ord', save ord' [pendingOrder])
            \<and> status ord' = Review
            \<and> statusHistory ord' =
                (if Review = status pendingOrder then statusHistory pendingOrder
                 else statusHistory pendingOrder @
                   [\<lparr>h_status = Review, h_timestamp = 5,
                     h_note = or_string (statusNote (statusOnly Review))
                                ''Status updated by admin''\<rparr>])"
    by blast
  from b have b': "\<exists>ord'. updateOrder [pendingOrder] adminUser 1 (statusOnly Pending) 5
               = (Success 200 ord', save ord' [pendingOrder])
            \<and> statusHistory ord' = statusHistory pendingOrder"
    unfolding p by auto
  from c have c': "\<exists>ord'. updateOrder [pendingOrder] adminUser 1 (statusOnly Review) 5
               = (Success 200 ord', save ord' [pendingOrder])
            \<and> statusHistory ord' = statusHistory pendingOrder @
                 [\<lparr>h_status = Review, h_timestamp = 5, h_note = ''Status updated by admin''\<rparr>]"
    unfolding p n by auto
  from a b' c' show ?thesis by blast
qed

end
